theory Spec2Isabelle
  imports Main
begin

section \<open>Messages and the error taxonomy (test\_agents.py, lines 9--31)\<close>

text \<open>
  A \<open>Message\<close> is the pydantic model of the source: four string fields and a timestamp
  string. Python strings are modelled as \<open>string\<close>.
\<close>

record Message =
  sender_id :: string
  receiver_id :: string
  content :: string
  message_type :: string
  timestamp :: string

text \<open>
  Every exception that the modelled code can raise is a value of \<open>error\<close>. The first
  three constructors are the subclasses of \<open>AgentError\<close> declared in the source; the
  others are the exceptions of Python and of the libraries that the source calls:
  \<open>queue.Full\<close>, \<open>NotImplementedError\<close>, pydantic's \<open>ValidationError\<close>,
  \<open>json.JSONDecodeError\<close>, \<open>TypeError\<close>, \<open>KeyError\<close> and the exceptions of httpx.
\<close>

datatype error =
    CommunicationError string
  | OllamaError string
  | QueueFullError string
  | Full
  | NotImplementedError
  | ValidationError string
  | JSONDecodeError string
  | TypeError
  | KeyError string
  | HTTPError string

fun is_AgentError :: "error \<Rightarrow> bool" where
  "is_AgentError (CommunicationError s) = True"
| "is_AgentError (OllamaError s) = True"
| "is_AgentError (QueueFullError s) = True"
| "is_AgentError e = False"

text \<open>\<open>str(e)\<close> for an exception \<open>e\<close>: the message it was raised with.\<close>

fun error_str :: "error \<Rightarrow> string" where
  "error_str (CommunicationError s) = s"
| "error_str (OllamaError s) = s"
| "error_str (QueueFullError s) = s"
| "error_str Full = []"
| "error_str NotImplementedError = []"
| "error_str (ValidationError s) = s"
| "error_str (JSONDecodeError s) = s"
| "error_str TypeError = []"
| "error_str (KeyError s) = s"
| "error_str (HTTPError s) = s"

subsection \<open>The clock and \<open>datetime.isoformat\<close>\<close>

text \<open>
  The default factory of \<open>timestamp\<close> reads the wall clock. The reading is an input of
  the model; \<open>isoformat\<close> prints it as \<open>YYYY-MM-DDTHH:MM:SS\<close>, followed by
  \<open>.ffffff\<close> when the microsecond is not zero.
\<close>

record datetime =
  year :: nat
  month :: nat
  day :: nat
  hour :: nat
  minute :: nat
  second :: nat
  microsecond :: nat

definition digit_char :: "nat \<Rightarrow> char" where
  "digit_char d = ''0123456789'' ! (d mod 10)"

fun zpad :: "nat \<Rightarrow> nat \<Rightarrow> string" where
  "zpad 0 n = []"
| "zpad (Suc w) n = zpad w (n div 10) @ [digit_char n]"

definition isoformat :: "datetime \<Rightarrow> string" where
  "isoformat d =
     zpad 4 (year d) @ ''-'' @ zpad 2 (month d) @ ''-'' @ zpad 2 (day d) @ ''T'' @
     zpad 2 (hour d) @ '':'' @ zpad 2 (minute d) @ '':'' @ zpad 2 (second d) @
     (if microsecond d = 0 then [] else ''.'' @ zpad 6 (microsecond d))"

text \<open>
  Construction of a \<open>Message\<close>. The fields are annotated \<open>str\<close> and carry no further
  constraint, so pydantic accepts every string, the empty one included. The argument
  \<open>message_type\<close> is optional and defaults to \<open>general\<close>; the timestamp is taken from
  the clock. The result type keeps the place where a \<open>ValidationError\<close> would be raised.
\<close>

definition Message_init ::
  "datetime \<Rightarrow> string \<Rightarrow> string \<Rightarrow> string \<Rightarrow> string option \<Rightarrow> error + Message" where
  "Message_init now sender receiver text mtype =
     Inr \<lparr>sender_id = sender, receiver_id = receiver, content = text,
          message_type = (case mtype of None \<Rightarrow> ''general'' | Some t \<Rightarrow> t),
          timestamp = isoformat now\<rparr>"

section \<open>The bounded queue (\<open>queue.Queue\<close>)\<close>

text \<open>
  \<open>Queue(maxsize)\<close> holds its items in insertion order. A \<open>maxsize\<close> of zero or less
  means that the queue is unbounded. \<open>put_nowait\<close> raises \<open>Full\<close> instead of waiting;
  \<open>get\<close> on an empty queue waits for ever, which is the value \<open>None\<close>.
\<close>

record 'a Queue =
  maxsize :: int
  queue :: "'a list"

definition Queue_init :: "int \<Rightarrow> 'a Queue" where
  "Queue_init n = \<lparr>maxsize = n, queue = []\<rparr>"

definition Queue_qsize :: "'a Queue \<Rightarrow> nat" where
  "Queue_qsize q = length (queue q)"

definition Queue_empty :: "'a Queue \<Rightarrow> bool" where
  "Queue_empty q = (queue q = [])"

definition Queue_full :: "'a Queue \<Rightarrow> bool" where
  "Queue_full q = (0 < maxsize q \<and> maxsize q \<le> int (Queue_qsize q))"

definition Queue_put_nowait :: "'a Queue \<Rightarrow> 'a \<Rightarrow> error + 'a Queue" where
  "Queue_put_nowait q x =
     (if Queue_full q then Inl Full else Inr (q\<lparr>queue := queue q @ [x]\<rparr>))"

definition Queue_get :: "'a Queue \<Rightarrow> ('a \<times> 'a Queue) option" where
  "Queue_get q =
     (case queue q of [] \<Rightarrow> None | x # rest \<Rightarrow> Some (x, q\<lparr>queue := rest\<rparr>))"

section \<open>BaseAgent (test\_agents.py, lines 33--76)\<close>

record BaseAgent =
  agent_id :: string
  model :: string
  message_queue :: "Message Queue"
  base_url :: string
  timeout :: nat

definition BaseAgent_init :: "string \<Rightarrow> string option \<Rightarrow> int option \<Rightarrow> BaseAgent" where
  "BaseAgent_init aid mdl max_queue_size =
     \<lparr>agent_id = aid,
      model = (case mdl of None \<Rightarrow> ''mistral'' | Some m \<Rightarrow> m),
      message_queue = Queue_init (case max_queue_size of None \<Rightarrow> 100 | Some n \<Rightarrow> n),
      base_url = ''http://localhost:11434'',
      timeout = 30\<rparr>"

text \<open>
  \<open>send_message\<close> builds the message and returns it; any exception of the construction
  is raised again as a \<open>CommunicationError\<close>. The agent is not changed. The calls of
  \<open>print\<close>, here and in the other methods, write to the console and nothing else; the
  console is not part of the model.
\<close>

definition send_message ::
  "datetime \<Rightarrow> BaseAgent \<Rightarrow> string \<Rightarrow> string \<Rightarrow> string option \<Rightarrow> error + Message" where
  "send_message now self to_agent_id text mtype =
     (case Message_init now (agent_id self) to_agent_id text
             (Some (case mtype of None \<Rightarrow> ''general'' | Some t \<Rightarrow> t)) of
        Inr message \<Rightarrow> Inr message
      | Inl e \<Rightarrow> Inl (CommunicationError (''Failed to send message: '' @ error_str e)))"

text \<open>
  \<open>receive_message\<close> checks the addressee, then the capacity, then appends. The result is
  the agent afterwards together with the outcome of the call.
\<close>

definition receive_message :: "BaseAgent \<Rightarrow> Message \<Rightarrow> BaseAgent \<times> (error + unit)" where
  "receive_message self message =
     (if receiver_id message \<noteq> agent_id self then
        (self, Inl (CommunicationError
           (''Message intended for '' @ receiver_id message @ '', not '' @ agent_id self)))
      else if Queue_full (message_queue self) then
        (self, Inl (QueueFullError (''Message queue full for agent '' @ agent_id self)))
      else
        (case Queue_put_nowait (message_queue self) message of
           Inl e \<Rightarrow> (self, Inl e)
         | Inr q \<Rightarrow> (self\<lparr>message_queue := q\<rparr>, Inr ())))"

text \<open>
  A run of \<open>receive_message\<close> calls that all succeed: \<open>receive_all self ms\<close> is the agent
  after the messages \<open>ms\<close> were received in order, or the first error.
\<close>

fun receive_all :: "BaseAgent \<Rightarrow> Message list \<Rightarrow> error + BaseAgent" where
  "receive_all self [] = Inr self"
| "receive_all self (m # ms) =
     (case receive_message self m of
        (self', Inr u) \<Rightarrow> receive_all self' ms
      | (self', Inl e) \<Rightarrow> Inl e)"

text \<open>
  A run of \<open>receive_message\<close> calls where the caller catches each error and goes on:
  \<open>receive_each self ms\<close> is the agent after all the attempts.
\<close>

fun receive_each :: "BaseAgent \<Rightarrow> Message list \<Rightarrow> BaseAgent" where
  "receive_each self [] = self"
| "receive_each self (m # ms) = receive_each (fst (receive_message self m)) ms"

text \<open>
  The handler \<open>_handle_message\<close> is the method that subclasses override. It runs on the
  agent and may change it; it returns a value or raises.
\<close>

type_synonym 'r handler = "BaseAgent \<Rightarrow> Message \<Rightarrow> BaseAgent \<times> (error + 'r)"

text \<open>
  \<open>process_messages\<close> is the loop of lines 68--72: while the queue is not empty, take the
  head and await the handler on it. The value returned by the handler is dropped; an
  exception of the handler leaves the loop. The list \<open>tr\<close> records, in call order, the
  messages that were handed to the handler; the result is the agent afterwards, that
  record, and the outcome. A loop that never ends is the value \<open>None\<close>.
\<close>

partial_function (option) process_messages ::
  "'r handler \<Rightarrow> BaseAgent \<Rightarrow> Message list \<Rightarrow>
     (BaseAgent \<times> Message list \<times> (error + unit)) option"
where
  "process_messages h self tr =
     (if Queue_empty (message_queue self) then Some (self, tr, Inr ())
      else
        (case Queue_get (message_queue self) of
           None \<Rightarrow> None
         | Some (message, q) \<Rightarrow>
             (case h (self\<lparr>message_queue := q\<rparr>) message of
                (self', Inl e) \<Rightarrow> Some (self', tr @ [message], Inl e)
              | (self', Inr r) \<Rightarrow> process_messages h self' (tr @ [message]))))"



section \<open>The generation client (test\_agents.py, lines 80--100 and 108--127)\<close>

text \<open>
  The values that \<open>json.loads\<close> returns. A dictionary is kept as its list of items;
  a float is kept as its literal.
\<close>

datatype json =
    JNull
  | JBool bool
  | JInt int
  | JFloat string
  | JStr string
  | JList "json list"
  | JDict "(string \<times> json) list"

text \<open>
  Two library calls are inputs of the model. \<open>loads\<close> is \<open>json.loads\<close>: it returns the
  decoded value, or the message of the \<open>JSONDecodeError\<close> that it raises. \<open>post\<close> is
  the request \<open>client.post(url, json = {model, prompt})\<close>: it returns \<open>response.text\<close>,
  or the message of the httpx exception that it raises.
\<close>

type_synonym loads = "string \<Rightarrow> string + json"
type_synonym post = "string \<Rightarrow> string \<Rightarrow> string \<Rightarrow> string + string"

text \<open>
  \<open>str.strip()\<close> removes white space at both ends, and \<open>str.split('\n')\<close> cuts at every
  line feed, so that a text without a line feed is one line.
\<close>

definition isspace :: "char \<Rightarrow> bool" where
  "isspace c = (of_char c \<in> {9, 10, 11, 12, 13, 28, 29, 30, 31, 32, 133, 160 :: nat})"

definition strip :: "string \<Rightarrow> string" where
  "strip s = rev (dropWhile isspace (rev (dropWhile isspace s)))"

fun split_lines :: "string \<Rightarrow> string list" where
  "split_lines [] = [[]]"
| "split_lines (c # cs) =
     (if c = CHR 0x0A then [] # split_lines cs
      else (case split_lines cs of
              [] \<Rightarrow> [[c]]
            | l # ls \<Rightarrow> (c # l) # ls))"

text \<open>
  The three operations that the loop applies to a decoded line: \<open>key in data\<close>,
  \<open>data[key]\<close> and \<open>text += value\<close>. Each raises \<open>TypeError\<close> on a value of the wrong
  kind. In a string, \<open>in\<close> is the substring test; in a list, membership.
\<close>

fun is_substring :: "string \<Rightarrow> string \<Rightarrow> bool" where
  "is_substring p [] = (p = [])"
| "is_substring p (c # cs) = (take (length p) (c # cs) = p \<or> is_substring p cs)"

fun py_contains :: "json \<Rightarrow> string \<Rightarrow> error + bool" where
  "py_contains (JDict kvs) k = Inr (k \<in> set (map fst kvs))"
| "py_contains (JList xs) k = Inr (JStr k \<in> set xs)"
| "py_contains (JStr s) k = Inr (is_substring k s)"
| "py_contains v k = Inl TypeError"

fun py_getitem :: "json \<Rightarrow> string \<Rightarrow> error + json" where
  "py_getitem (JDict kvs) k =
     (case map_of kvs k of None \<Rightarrow> Inl (KeyError k) | Some v \<Rightarrow> Inr v)"
| "py_getitem v k = Inl TypeError"

fun py_str_iadd :: "string \<Rightarrow> json \<Rightarrow> error + string" where
  "py_str_iadd s (JStr t) = Inr (s @ t)"
| "py_str_iadd s v = Inl TypeError"

text \<open>
  The loop over the lines of the response, the same in \<open>generate_question\<close> (lines
  93--98) and in \<open>generate_answer\<close> (lines 120--125): an empty line is skipped, every
  other line is decoded, and the fragment under \<open>response\<close> is appended when the key is
  there. No exception is caught.
\<close>

fun collect_fragments :: "loads \<Rightarrow> string \<Rightarrow> string list \<Rightarrow> error + string" where
  "collect_fragments loads acc [] = Inr acc"
| "collect_fragments loads acc (line # rest) =
     (if line = [] then collect_fragments loads acc rest
      else
        (case loads line of
           Inl msg \<Rightarrow> Inl (JSONDecodeError msg)
         | Inr data \<Rightarrow>
             (case py_contains data ''response'' of
                Inl e \<Rightarrow> Inl e
              | Inr False \<Rightarrow> collect_fragments loads acc rest
              | Inr True \<Rightarrow>
                  (case py_getitem data ''response'' of
                     Inl e \<Rightarrow> Inl e
                   | Inr v \<Rightarrow>
                       (case py_str_iadd acc v of
                          Inl e \<Rightarrow> Inl e
                        | Inr acc' \<Rightarrow> collect_fragments loads acc' rest)))))"

definition assemble_response :: "loads \<Rightarrow> string \<Rightarrow> error + string" where
  "assemble_response loads text =
     (case collect_fragments loads [] (split_lines (strip text)) of
        Inl e \<Rightarrow> Inl e
      | Inr s \<Rightarrow> Inr (strip s))"

definition generate_question :: "post \<Rightarrow> loads \<Rightarrow> BaseAgent \<Rightarrow> string \<Rightarrow> error + string" where
  "generate_question post loads self topic =
     (case post (base_url self @ ''/api/generate'') (model self)
             (''Generate a thought-provoking question about: '' @ topic) of
        Inl msg \<Rightarrow> Inl (HTTPError msg)
      | Inr text \<Rightarrow> assemble_response loads text)"

definition generate_answer :: "post \<Rightarrow> loads \<Rightarrow> BaseAgent \<Rightarrow> string \<Rightarrow> error + string" where
  "generate_answer post loads self question =
     (case post (base_url self @ ''/api/generate'') (model self)
             (''Please answer this question: '' @ question) of
        Inl msg \<Rightarrow> Inl (HTTPError msg)
      | Inr text \<Rightarrow> assemble_response loads text)"

subsection \<open>The assembled text as the specification words it\<close>

text \<open>
  The specification describes the response as a sequence of lines, each a structured
  record that may or may not carry a text fragment under \<open>response\<close>. \<open>line_fragment\<close>
  reads one line in these words: the fragment of a record that carries one, the empty
  text for a record without the field, and \<open>None\<close> for a line that is no such record.
  \<open>concat_fragments\<close> is the concatenation of the fragments, in order.
\<close>

definition line_fragment :: "loads \<Rightarrow> string \<Rightarrow> string option" where
  "line_fragment loads line =
     (case loads line of
        Inl msg \<Rightarrow> None
      | Inr data \<Rightarrow>
          (case data of
             JDict kvs \<Rightarrow>
               (case map_of kvs ''response'' of
                  None \<Rightarrow> Some []
                | Some v \<Rightarrow> (case v of JStr s \<Rightarrow> Some s | _ \<Rightarrow> None))
           | _ \<Rightarrow> None))"

fun concat_fragments :: "loads \<Rightarrow> string list \<Rightarrow> string" where
  "concat_fragments loads [] = []"
| "concat_fragments loads (line # rest) =
     (if line = [] then concat_fragments loads rest
      else (case line_fragment loads line of None \<Rightarrow> [] | Some s \<Rightarrow> s)
             @ concat_fragments loads rest)"

section \<open>The handlers of the two roles (lines 102--104 and 129--139)\<close>


definition AnswerAgent_handle_message ::
  "post \<Rightarrow> loads \<Rightarrow> datetime \<Rightarrow> Message option handler" where
  "AnswerAgent_handle_message post loads now self message =
     (if message_type message = ''question'' then
        (case generate_answer post loads self (content message) of
           Inl e \<Rightarrow> (self, Inl e)
         | Inr answer \<Rightarrow>
             (case send_message now self (sender_id message) answer (Some ''answer'') of
                Inl e \<Rightarrow> (self, Inl e)
              | Inr response_message \<Rightarrow> (self, Inr (Some response_message))))
      else (self, Inr None))"

section \<open>Sample data\<close>

text \<open>The agent and the two messages of \<open>test_error_handling\<close> (lines 191--201).\<close>

definition test_agent :: BaseAgent where
  "test_agent = BaseAgent_init ''test_agent'' None (Some 1)"

definition msg1 :: Message where
  "msg1 = \<lparr>sender_id = ''sender'', receiver_id = ''test_agent'', content = ''msg1'',
           message_type = ''general'', timestamp = ''2024-01-01T00:00:00''\<rparr>"

definition msg2 :: Message where
  "msg2 = \<lparr>sender_id = ''sender'', receiver_id = ''test_agent'', content = ''msg2'',
           message_type = ''general'', timestamp = ''2024-01-01T00:00:01''\<rparr>"

text \<open>A reading of the clock, the agent of \<open>test_base_agent\<close>, and a message for another agent.\<close>

definition sample_now :: datetime where
  "sample_now = \<lparr>year = 2024, month = 1, day = 15, hour = 9, minute = 30, second = 5,
                  microsecond = 0\<rparr>"

definition agent1 :: BaseAgent where
  "agent1 = BaseAgent_init ''agent1'' None None"

definition misaddressed :: Message where
  "misaddressed = \<lparr>sender_id = ''sender'', receiver_id = ''someone_else'', content = ''msg0'',
           message_type = ''general'', timestamp = ''2024-01-01T00:00:00''\<rparr>"


text \<open>
  A backend for the examples. The response has three lines, two with the fragments
  \<open>Hel\<close> and \<open>lo\<close> and one without the field; the decoder knows these three lines and
  rejects every other text, as \<open>json.loads\<close> rejects \<open>not json\<close>.
\<close>

definition sample_loads :: loads where
  \<open>sample_loads line =
     (if line = ''{"response": "Hel"}'' then Inr (JDict [(''response'', JStr ''Hel'')])
      else if line = ''{"done": false}'' then Inr (JDict [(''done'', JBool False)])
      else if line = ''{"response": "lo"}'' then Inr (JDict [(''response'', JStr ''lo'')])
      else Inl ''Expecting value'')\<close>

definition sample_text :: string where
  \<open>sample_text =
     ''{"response": "Hel"}'' @ [CHR 0x0A] @ ''{"done": false}'' @ [CHR 0x0A] @
     ''{"response": "lo"}'' @ [CHR 0x0A]\<close>

definition sample_post :: post where
  "sample_post url mdl prompt = Inr sample_text"

definition malformed_post :: post where
  "malformed_post url mdl prompt = Inr ''not json''"

text \<open>The two agents of \<open>test_qa_agents\<close>, a question and the reply to it.\<close>

definition questioner :: BaseAgent where
  "questioner = BaseAgent_init ''questioner'' None None"

definition answerer :: BaseAgent where
  "answerer = BaseAgent_init ''answerer'' None None"

definition question_message :: Message where
  "question_message = \<lparr>sender_id = ''questioner'', receiver_id = ''answerer'',
     content = ''What is Python?'', message_type = ''question'',
     timestamp = ''2024-01-15T09:30:05''\<rparr>"

definition reply_message :: Message where
  "reply_message = \<lparr>sender_id = ''answerer'', receiver_id = ''questioner'',
     content = ''Hello'', message_type = ''answer'',
     timestamp = ''2024-01-15T09:30:05''\<rparr>"

section \<open>Properties of the mailbox\<close>

lemma receive_message_ok:
  "receive_message self m = (self', Inr u) \<Longrightarrow>
     receiver_id m = agent_id self \<and> \<not> Queue_full (message_queue self) \<and>
     self' = self\<lparr>message_queue :=
                    (message_queue self)\<lparr>queue := queue (message_queue self) @ [m]\<rparr>\<rparr>"
  by (auto simp: receive_message_def Queue_put_nowait_def split: if_splits)

lemma receive_all_ok:
  "receive_all self ms = Inr self' \<Longrightarrow>
     self' = self\<lparr>message_queue :=
                    (message_queue self)\<lparr>queue := queue (message_queue self) @ ms\<rparr>\<rparr>
     \<and> (ms \<noteq> [] \<longrightarrow>
           int (length (queue (message_queue self)) + length ms) - 1
             < maxsize (message_queue self)
           \<or> maxsize (message_queue self) \<le> 0)"
proof (induction ms arbitrary: self)
  case Nil
  then show ?case by simp
next
  case (Cons m ms)
  obtain s1 r where r1: "receive_message self m = (s1, r)"
    by (cases "receive_message self m")
  with Cons.prems obtain u where r: "r = Inr u" and ra: "receive_all s1 ms = Inr self'"
    by (cases r) auto
  from receive_message_ok[OF r1[unfolded r]] have
    s1: "s1 = self\<lparr>message_queue :=
                    (message_queue self)\<lparr>queue := queue (message_queue self) @ [m]\<rparr>\<rparr>"
    and nf: "\<not> Queue_full (message_queue self)" by auto
  from Cons.IH[OF ra] s1 nf show ?case
    by (cases ms) (auto simp: Queue_full_def Queue_qsize_def)
qed

text \<open>
  Claim C1. Take an agent whose mailbox has capacity \<open>C > 0\<close>. After \<open>C\<close> receive
  operations that all succeeded, a further receive of a message addressed to the agent
  fails with \<open>QueueFullError\<close>, returns at once, and leaves the agent as it was: the
  mailbox still holds exactly the \<open>C\<close> messages received.
\<close>

theorem mailbox_capacity_overflow:
  assumes "0 < maxsize (message_queue self)"
    and "int (length ms) = maxsize (message_queue self)"
    and "receive_all self ms = Inr self'"
    and "receiver_id m = agent_id self'"
  shows "receive_message self' m =
           (self', Inl (QueueFullError (''Message queue full for agent '' @ agent_id self')))
         \<and> int (Queue_qsize (message_queue self')) = maxsize (message_queue self')
         \<and> queue (message_queue self') = ms"
proof -
  from assms(1,2) have ne: "ms \<noteq> []" by auto
  from receive_all_ok[OF assms(3)] ne assms(1,2) show ?thesis
    using assms(4) by (auto simp: receive_message_def Queue_full_def Queue_qsize_def)
qed

theorem mailbox_capacity_overflow_witness:
  "receive_all test_agent [msg1] = Inr (fst (receive_message test_agent msg1))
   \<and> receive_message (fst (receive_message test_agent msg1)) msg2 =
       (fst (receive_message test_agent msg1),
        Inl (QueueFullError ''Message queue full for agent test_agent''))
   \<and> Queue_qsize (message_queue (fst (receive_message test_agent msg1))) = 1"
proof -
  let ?a1 = "fst (receive_message test_agent msg1)"
  have h1: "0 < maxsize (message_queue test_agent)"
    by (simp add: test_agent_def BaseAgent_init_def Queue_init_def)
  have h2: "int (length [msg1]) = maxsize (message_queue test_agent)"
    by (simp add: test_agent_def BaseAgent_init_def Queue_init_def)
  have h3: "receive_all test_agent [msg1] = Inr ?a1"
    by (simp add: test_agent_def msg1_def BaseAgent_init_def Queue_init_def
        receive_message_def Queue_full_def Queue_qsize_def Queue_put_nowait_def)
  have h4: "receiver_id msg2 = agent_id ?a1"
    by (simp add: test_agent_def msg1_def msg2_def BaseAgent_init_def Queue_init_def
        receive_message_def Queue_full_def Queue_qsize_def Queue_put_nowait_def)
  have id: "agent_id ?a1 = ''test_agent''"
    by (simp add: test_agent_def msg1_def BaseAgent_init_def Queue_init_def
        receive_message_def Queue_full_def Queue_qsize_def Queue_put_nowait_def)
  from mailbox_capacity_overflow [OF h1 h2 h3 h4] h3 id show ?thesis
    by (simp add: Queue_qsize_def)
qed

lemma receive_message_cases:
  "receive_message self m = (self, Inl (CommunicationError
           (''Message intended for '' @ receiver_id m @ '', not '' @ agent_id self)))
   \<and> receiver_id m \<noteq> agent_id self
  \<or> receive_message self m = (self, Inl (QueueFullError (''Message queue full for agent '' @ agent_id self)))
   \<and> receiver_id m = agent_id self \<and> Queue_full (message_queue self)
  \<or> receive_message self m = (self\<lparr>message_queue :=
                    (message_queue self)\<lparr>queue := queue (message_queue self) @ [m]\<rparr>\<rparr>, Inr ())
   \<and> receiver_id m = agent_id self \<and> \<not> Queue_full (message_queue self)"
  by (auto simp: receive_message_def Queue_put_nowait_def)

lemma receive_message_agent_id: "agent_id (fst (receive_message self m)) = agent_id self"
  using receive_message_cases[of self m] by auto

lemma receive_message_inv:
  "\<forall>x \<in> set (queue (message_queue self)). receiver_id x = agent_id self \<Longrightarrow>
   \<forall>x \<in> set (queue (message_queue (fst (receive_message self m)))). receiver_id x = agent_id self"
  using receive_message_cases[of self m] by auto

lemma receive_each_inv:
  "\<forall>x \<in> set (queue (message_queue self)). receiver_id x = agent_id self \<Longrightarrow>
   agent_id (receive_each self ms) = agent_id self \<and>
   (\<forall>x \<in> set (queue (message_queue (receive_each self ms))). receiver_id x = agent_id self)"
proof (induction ms arbitrary: self)
  case Nil
  then show ?case by simp
next
  case (Cons m ms)
  from Cons.IH[of "fst (receive_message self m)"] receive_message_inv[OF Cons.prems, of m]
  show ?case by (simp add: receive_message_agent_id)
qed

text \<open>
  Claim C2. A message whose \<open>receiver_id\<close> differs from the agent's \<open>agent_id\<close> is
  refused with \<open>CommunicationError\<close> and the agent is left as it was; \<open>receive_message\<close>
  changes the agent only by appending a message that is addressed to it. Hence every
  message in the mailbox carries the agent's identifier: the property is kept by every
  run of receive attempts, and it holds after any such run on a new agent.
\<close>

theorem receive_checks_addressee:
  "(receiver_id m \<noteq> agent_id self \<longrightarrow>
      receive_message self m = (self, Inl (CommunicationError
           (''Message intended for '' @ receiver_id m @ '', not '' @ agent_id self))))
   \<and> (fst (receive_message self m') \<noteq> self \<longrightarrow>
        receiver_id m' = agent_id self \<and> snd (receive_message self m') = Inr ()
        \<and> queue (message_queue (fst (receive_message self m'))) =
            queue (message_queue self) @ [m'])
   \<and> (snd (receive_message self m') = Inr () \<longrightarrow> receiver_id m' = agent_id self)
   \<and> ((\<forall>x \<in> set (queue (message_queue self)). receiver_id x = agent_id self) \<longrightarrow>
        (\<forall>x \<in> set (queue (message_queue (receive_each self ms))).
            receiver_id x = agent_id (receive_each self ms)))
   \<and> (\<forall>x \<in> set (queue (message_queue (receive_each (BaseAgent_init aid mdl cap) ms))).
          receiver_id x = aid)"
proof -
  have init: "\<forall>x \<in> set (queue (message_queue (BaseAgent_init aid mdl cap))).
                receiver_id x = agent_id (BaseAgent_init aid mdl cap)"
    by (simp add: BaseAgent_init_def Queue_init_def)
  have aid: "agent_id (BaseAgent_init aid mdl cap) = aid"
    by (simp add: BaseAgent_init_def)
  from receive_message_cases[of self m] have 1:
    "receiver_id m \<noteq> agent_id self \<longrightarrow>
      receive_message self m = (self, Inl (CommunicationError
           (''Message intended for '' @ receiver_id m @ '', not '' @ agent_id self)))"
    by auto
  from receive_message_cases[of self m'] have 2:
    "fst (receive_message self m') \<noteq> self \<longrightarrow>
        receiver_id m' = agent_id self \<and> snd (receive_message self m') = Inr ()
        \<and> queue (message_queue (fst (receive_message self m'))) =
            queue (message_queue self) @ [m']"
    by auto
  from receive_message_cases[of self m'] have 3:
    "snd (receive_message self m') = Inr () \<longrightarrow> receiver_id m' = agent_id self"
    by auto
  from receive_each_inv[of self ms] have 4:
    "(\<forall>x \<in> set (queue (message_queue self)). receiver_id x = agent_id self) \<longrightarrow>
        (\<forall>x \<in> set (queue (message_queue (receive_each self ms))).
            receiver_id x = agent_id (receive_each self ms))"
    by simp
  from receive_each_inv[OF init, of ms] aid have 5:
    "\<forall>x \<in> set (queue (message_queue (receive_each (BaseAgent_init aid mdl cap) ms))).
          receiver_id x = aid"
    by simp
  from 1 2 3 4 5 show ?thesis by blast
qed

lemma receive_each_sample:
  "receive_each test_agent [misaddressed, msg1, msg2] = fst (receive_message test_agent msg1)"
  by (simp add: test_agent_def msg1_def msg2_def misaddressed_def BaseAgent_init_def
      Queue_init_def receive_message_def Queue_full_def Queue_qsize_def Queue_put_nowait_def)

theorem receive_checks_addressee_witness:
  "receiver_id misaddressed \<noteq> agent_id test_agent
   \<and> receive_message test_agent misaddressed =
       (test_agent, Inl (CommunicationError
          ''Message intended for someone_else, not test_agent''))
   \<and> fst (receive_message test_agent msg1) \<noteq> test_agent
   \<and> snd (receive_message test_agent msg1) = Inr ()
   \<and> queue (message_queue (fst (receive_message test_agent msg1))) = [msg1]
   \<and> queue (message_queue (receive_each test_agent [misaddressed, msg1, msg2])) = [msg1]
   \<and> map receiver_id
         (queue (message_queue (receive_each test_agent [misaddressed, msg1, msg2]))) =
       [''test_agent'']"
proof -
  have h1: "receiver_id misaddressed \<noteq> agent_id test_agent"
    by (simp add: misaddressed_def test_agent_def BaseAgent_init_def)
  have h2: "fst (receive_message test_agent msg1) \<noteq> test_agent"
    by (simp add: test_agent_def msg1_def BaseAgent_init_def
      Queue_init_def receive_message_def Queue_full_def Queue_qsize_def Queue_put_nowait_def)
  have q0: "queue (message_queue test_agent) = []"
    by (simp add: test_agent_def BaseAgent_init_def Queue_init_def)
  have id: "agent_id test_agent = ''test_agent''"
    by (simp add: test_agent_def BaseAgent_init_def)
  have rid: "receiver_id misaddressed = ''someone_else''"
    by (simp add: misaddressed_def)
  have ta: "BaseAgent_init ''test_agent'' None (Some 1) = test_agent"
    by (simp add: test_agent_def)
  have q1: "queue (message_queue (fst (receive_message test_agent msg1))) = [msg1]"
    by (simp add: test_agent_def msg1_def BaseAgent_init_def
      Queue_init_def receive_message_def Queue_full_def Queue_qsize_def Queue_put_nowait_def)
  from receive_checks_addressee [of misaddressed test_agent msg1
      "[misaddressed, msg1, msg2]" "''test_agent''" None "Some 1"]
    h1 h2 q0 id rid q1
  show ?thesis by (simp add: ta receive_each_sample del: receive_each.simps)
qed

section \<open>Properties of message construction\<close>

lemma zpad2: "zpad 2 n = [digit_char (n div 10), digit_char n]"
  by (simp add: numeral_2_eq_2)

lemma zpad4:
  "zpad 4 n =
     [digit_char (n div 10 div 10 div 10), digit_char (n div 10 div 10),
      digit_char (n div 10), digit_char n]"
proof -
  have four: "(4::nat) = Suc (Suc (Suc (Suc 0)))" by simp
  show ?thesis unfolding four by simp
qed

lemma isoformat_sample: "isoformat sample_now = ''2024-01-15T09:30:05''"
  by (simp add: isoformat_def sample_now_def zpad2 zpad4 digit_char_def)

lemma isoformat_nonempty: "isoformat d \<noteq> []"
  by (simp add: isoformat_def)



text \<open>
  Claim C8. For an agent with identifier \<open>agent1\<close>, sending \<open>Hello\<close> to \<open>agent2\<close> with
  type \<open>general\<close> succeeds and returns the message with sender \<open>agent1\<close>, receiver
  \<open>agent2\<close>, content \<open>Hello\<close>, type \<open>general\<close> and a timestamp that is not empty,
  fixed when the message is built. When the type is left out it is \<open>general\<close>, in
  \<open>send_message\<close> and in the construction of a \<open>Message\<close> alike.
\<close>

theorem send_message_scenario:
  assumes "agent_id self = ''agent1''"
  shows "send_message now self ''agent2'' ''Hello'' (Some ''general'') =
     Inr \<lparr>sender_id = ''agent1'', receiver_id = ''agent2'', content = ''Hello'',
          message_type = ''general'', timestamp = isoformat now\<rparr>
   \<and> isoformat now \<noteq> []
   \<and> send_message now self to_agent_id text None =
       send_message now self to_agent_id text (Some ''general'')
   \<and> Message_init now sender receiver text None =
       Message_init now sender receiver text (Some ''general'')"
  using assms by (simp add: Message_init_def send_message_def isoformat_nonempty)

theorem send_message_scenario_witness:
  "agent_id agent1 = ''agent1''
   \<and> send_message sample_now agent1 ''agent2'' ''Hello'' (Some ''general'') =
     Inr \<lparr>sender_id = ''agent1'', receiver_id = ''agent2'', content = ''Hello'',
          message_type = ''general'', timestamp = ''2024-01-15T09:30:05''\<rparr>
   \<and> send_message sample_now agent1 ''agent2'' ''Hello'' None =
     Inr \<lparr>sender_id = ''agent1'', receiver_id = ''agent2'', content = ''Hello'',
          message_type = ''general'', timestamp = ''2024-01-15T09:30:05''\<rparr>"
proof -
  have h: "agent_id agent1 = ''agent1''" by (simp add: agent1_def BaseAgent_init_def)
  from send_message_scenario [OF h, of sample_now "''agent2''" "''Hello''"] h
  show ?thesis by (simp add: isoformat_sample)
qed

section \<open>Properties of the processing loop\<close>



















section \<open>Properties of the generation client and of the answering role\<close>

lemma isspace_simps:
  "isspace (CHR 0x0A)" "\<not> isspace (CHR ''{'')" "\<not> isspace (CHR ''}'')"
  "\<not> isspace (CHR ''n'')" "\<not> isspace (CHR ''H'')" "\<not> isspace (CHR ''o'')"
  by (simp_all add: isspace_def)

lemma strip_sample: \<open>strip sample_text =
     ''{"response": "Hel"}'' @ [CHR 0x0A] @ ''{"done": false}'' @ [CHR 0x0A] @
     ''{"response": "lo"}''\<close>
  by (simp add: strip_def sample_text_def isspace_simps)

lemma lines_sample: \<open>split_lines (strip sample_text) =
     [''{"response": "Hel"}'', ''{"done": false}'', ''{"response": "lo"}'']\<close>
  by (simp add: strip_sample)

lemma collect_sample:
  \<open>collect_fragments sample_loads []
     [''{"response": "Hel"}'', ''{"done": false}'', ''{"response": "lo"}''] = Inr ''Hello''\<close>
  by (simp add: sample_loads_def)

lemma strip_Hello: "strip ''Hello'' = ''Hello''"
  by (simp add: strip_def isspace_simps)

lemma assemble_sample: "assemble_response sample_loads sample_text = Inr ''Hello''"
  by (simp only: assemble_response_def lines_sample collect_sample sum.case strip_Hello)

lemma strip_not_json: "strip ''not json'' = ''not json''"
  by (simp add: strip_def isspace_def)

lemma assemble_malformed:
  "assemble_response sample_loads ''not json'' = Inl (JSONDecodeError ''Expecting value'')"
  by (simp add: assemble_response_def strip_not_json sample_loads_def)

lemma collect_fragments_records:
  "\<forall>l \<in> set ls. l \<noteq> [] \<longrightarrow> line_fragment loads l \<noteq> None \<Longrightarrow>
   collect_fragments loads acc ls = Inr (acc @ concat_fragments loads ls)"
proof (induction ls arbitrary: acc)
  case Nil
  then show ?case by simp
next
  case (Cons l ls)
  then have IH: "\<And>acc. collect_fragments loads acc ls = Inr (acc @ concat_fragments loads ls)"
    by simp
  show ?case
  proof (cases "l = []")
    case True
    then show ?thesis using IH by simp
  next
    case False
    with Cons.prems obtain s where s: "line_fragment loads l = Some s" by auto
    then obtain kvs where ld: "loads l = Inr (JDict kvs)"
      by (auto simp: line_fragment_def split: sum.splits json.splits)
    show ?thesis
    proof (cases "map_of kvs ''response''")
      case None
      then have "''response'' \<notin> set (map fst kvs)" by (simp add: map_of_eq_None_iff)
      moreover from None s ld have "s = []" by (simp add: line_fragment_def)
      ultimately show ?thesis using False ld s IH by simp
    next
      case (Some v)
      with s ld have v: "v = JStr s"
        by (auto simp: line_fragment_def split: json.splits)
      from Some have "''response'' \<in> set (map fst kvs)"
        by (metis map_of_eq_None_iff option.distinct(1) set_map)
      with False ld s IH Some v show ?thesis by simp
    qed
  qed
qed

lemma collect_fragments_error:
  "collect_fragments loads acc ls = Inl e \<Longrightarrow> \<not> is_AgentError e"
proof (induction ls arbitrary: acc)
  case Nil
  then show ?case by simp
next
  case (Cons l ls)
  show ?case
  proof (cases "l = []")
    case True
    with Cons show ?thesis by simp
  next
    case False
    with Cons.prems Cons.IH show ?thesis
      by (auto split: sum.splits bool.splits option.splits elim!: py_contains.elims py_getitem.elims py_str_iadd.elims)
  qed
qed

text \<open>
  Claim C7. When every line of the response that is not empty is a structured record,
  the generation client returns the fragments under \<open>response\<close>, concatenated in order,
  lines without the field adding nothing, with the white space at both ends removed.
  This holds for the assembling loop and so for \<open>generate_question\<close> and
  \<open>generate_answer\<close>. The witness is the response of three lines with the fragments
  \<open>Hel\<close> and \<open>lo\<close>, which gives \<open>Hello\<close>.
\<close>

theorem generation_concatenates_fragments:
  assumes "\<forall>l \<in> set (split_lines (strip text)). l \<noteq> [] \<longrightarrow> line_fragment loads l \<noteq> None"
  shows "assemble_response loads text =
           Inr (strip (concat_fragments loads (split_lines (strip text))))
     \<and> (post (base_url self @ ''/api/generate'') (model self)
            (''Generate a thought-provoking question about: '' @ topic) = Inr text \<longrightarrow>
          generate_question post loads self topic =
            Inr (strip (concat_fragments loads (split_lines (strip text)))))
     \<and> (post (base_url self @ ''/api/generate'') (model self)
            (''Please answer this question: '' @ question) = Inr text \<longrightarrow>
          generate_answer post loads self question =
            Inr (strip (concat_fragments loads (split_lines (strip text)))))"
proof -
  from collect_fragments_records[OF assms, of "[]"]
  have a: "assemble_response loads text =
           Inr (strip (concat_fragments loads (split_lines (strip text))))"
    by (simp add: assemble_response_def)
  then show ?thesis by (simp add: generate_question_def generate_answer_def)
qed

lemma generate_sample:
  "generate_question sample_post sample_loads questioner ''python programming'' = Inr ''Hello''"
  "generate_answer sample_post sample_loads answerer ''What is Python?'' = Inr ''Hello''"
  by (simp_all only: generate_question_def generate_answer_def sample_post_def sum.case
      assemble_sample)

theorem generation_concatenates_fragments_witness:
  \<open>split_lines (strip sample_text) =
     [''{"response": "Hel"}'', ''{"done": false}'', ''{"response": "lo"}'']
   \<and> line_fragment sample_loads ''{"response": "Hel"}'' = Some ''Hel''
   \<and> line_fragment sample_loads ''{"done": false}'' = Some []
   \<and> line_fragment sample_loads ''{"response": "lo"}'' = Some ''lo''
   \<and> assemble_response sample_loads sample_text = Inr ''Hello''
   \<and> generate_question sample_post sample_loads questioner ''python programming'' =
       Inr ''Hello''
   \<and> generate_answer sample_post sample_loads answerer ''What is Python?'' = Inr ''Hello''\<close>
proof -
  have f: \<open>line_fragment sample_loads ''{"response": "Hel"}'' = Some ''Hel''\<close>
    \<open>line_fragment sample_loads ''{"done": false}'' = Some []\<close>
    \<open>line_fragment sample_loads ''{"response": "lo"}'' = Some ''lo''\<close>
    by (simp_all add: line_fragment_def sample_loads_def)
  have h: "\<forall>l \<in> set (split_lines (strip sample_text)).
             l \<noteq> [] \<longrightarrow> line_fragment sample_loads l \<noteq> None"
    by (simp add: lines_sample f)
  have c: "concat_fragments sample_loads (split_lines (strip sample_text)) = ''Hello''"
    by (simp add: lines_sample f)
  note g = generation_concatenates_fragments [OF h]
  from g [of sample_post questioner "''python programming''" "''What is Python?''"]
    g [of sample_post answerer "''python programming''" "''What is Python?''"]
  have "assemble_response sample_loads sample_text = Inr ''Hello''"
    and "generate_question sample_post sample_loads questioner ''python programming'' =
       Inr ''Hello''"
    and "generate_answer sample_post sample_loads answerer ''What is Python?'' = Inr ''Hello''"
    by (simp_all add: c strip_Hello sample_post_def)
  with f lines_sample show ?thesis by simp
qed

text \<open>
  Claim C6. A line that is not valid JSON does make the call fail, but the error that
  leaves \<open>generate_question\<close> and \<open>generate_answer\<close> is the \<open>JSONDecodeError\<close> of the
  decoder, which is no \<open>AgentError\<close>: nothing turns it into an \<open>OllamaError\<close>.
\<close>

theorem malformed_line_raises_JSONDecodeError:
  "generate_question malformed_post sample_loads questioner ''python programming'' =
     Inl (JSONDecodeError ''Expecting value'')
   \<and> generate_answer malformed_post sample_loads answerer ''What is Python?'' =
     Inl (JSONDecodeError ''Expecting value'')
   \<and> is_AgentError (JSONDecodeError ''Expecting value'') = False"
  by (simp only: generate_question_def generate_answer_def malformed_post_def sum.case
      assemble_malformed is_AgentError.simps simp_thms)

lemma receive_question:
  "receive_message answerer question_message =
     (answerer\<lparr>message_queue := \<lparr>maxsize = 100, queue = [question_message]\<rparr>\<rparr>, Inr ())"
  by (simp add: answerer_def question_message_def BaseAgent_init_def
      Queue_init_def receive_message_def Queue_full_def Queue_qsize_def Queue_put_nowait_def)

lemma send_question:
  "send_message sample_now questioner ''answerer'' ''What is Python?'' (Some ''question'') =
     Inr question_message"
  by (simp add: send_message_def Message_init_def questioner_def BaseAgent_init_def
      question_message_def isoformat_sample)

lemma send_reply:
  "send_message sample_now answerer ''questioner'' ''Hello'' (Some ''answer'') =
     Inr reply_message"
  by (simp add: send_message_def Message_init_def answerer_def BaseAgent_init_def
      reply_message_def isoformat_sample)

lemma handle_question:
  "AnswerAgent_handle_message sample_post sample_loads sample_now answerer question_message =
     (answerer, Inr (Some reply_message))"
proof -
  have c: "content question_message = ''What is Python?''"
    and s: "sender_id question_message = ''questioner''"
    and t: "message_type question_message = ''question''"
    by (simp_all add: question_message_def)
  show ?thesis
    by (simp only: AnswerAgent_handle_message_def c s t generate_sample send_reply
        sum.case if_True refl)
qed

lemma answerer_empty:
  "answerer\<lparr>message_queue := \<lparr>maxsize = 100, queue = []\<rparr>\<rparr> = answerer"
  by (simp add: answerer_def BaseAgent_init_def Queue_init_def)

text \<open>
  Claim C4. The questioner sends a question, the answerer receives it. The handler of the
  answerer builds the reply, of type \<open>answer\<close>, addressed to the questioner, with the
  generated text, and returns it; \<open>process_messages\<close> drops that value: its result is
  the drained agent and the outcome, and carries no reply.
\<close>

theorem reply_dropped_by_process_messages:
  "send_message sample_now questioner ''answerer'' ''What is Python?'' (Some ''question'') =
     Inr question_message
   \<and> receive_message answerer question_message =
     (answerer\<lparr>message_queue := \<lparr>maxsize = 100, queue = [question_message]\<rparr>\<rparr>, Inr ())
   \<and> AnswerAgent_handle_message sample_post sample_loads sample_now answerer
       question_message = (answerer, Inr (Some reply_message))
   \<and> process_messages (AnswerAgent_handle_message sample_post sample_loads sample_now)
       (answerer\<lparr>message_queue := \<lparr>maxsize = 100, queue = [question_message]\<rparr>\<rparr>) [] =
     Some (answerer, [question_message], Inr ())"
proof -
  have "process_messages (AnswerAgent_handle_message sample_post sample_loads sample_now)
       (answerer\<lparr>message_queue := \<lparr>maxsize = 100, queue = [question_message]\<rparr>\<rparr>) [] =
     Some (answerer, [question_message], Inr ())"
    apply (subst process_messages.simps)
    apply (simp add: Queue_empty_def Queue_get_def answerer_empty handle_question)
    apply (subst process_messages.simps)
    apply (simp add: Queue_empty_def answerer_def BaseAgent_init_def Queue_init_def)
    done
  with send_question receive_question handle_question show ?thesis by simp
qed

end
